theory Spec2Isabelle
  imports Main
begin

section \<open>JavaScript values read by the component\<close>

text \<open>
  The response body of the load request and the \<open>initialData\<close> prop are arbitrary
  JavaScript values. \<open>Undefined\<close> is the value of an absent property or prop. Numbers
  are kept as integers: the component only tests them for truthiness.
\<close>

datatype jsval =
    Undefined
  | JNull
  | JBool bool
  | JNum int
  | JStr string
  | JArr "jsval list"
  | JObj "(string \<times> jsval) list"

datatype js_error = TypeError | NetworkError | SyntaxError

text \<open>JavaScript truthiness, as tested by \<open>!x\<close>, \<open>x || y\<close> and \<open>if (x)\<close>.\<close>

fun truthy :: "jsval \<Rightarrow> bool" where
  "truthy Undefined = False"
| "truthy JNull = False"
| "truthy (JBool b) = b"
| "truthy (JNum n) = (n \<noteq> 0)"
| "truthy (JStr s) = (s \<noteq> [])"
| "truthy (JArr xs) = True"
| "truthy (JObj kvs) = True"

text \<open>\<open>a || b\<close>\<close>

definition or_js :: "jsval \<Rightarrow> jsval \<Rightarrow> jsval" where
  "or_js a b = (if truthy a then a else b)"

text \<open>
  Property read \<open>x.k\<close> for the property names the component reads (\<open>success\<close>,
  \<open>data\<close>, \<open>content\<close>, \<open>title\<close>): reading from \<open>undefined\<close> or \<open>null\<close> throws a
  TypeError, an object yields the value stored under the key (the last one when the key is
  repeated) or \<open>undefined\<close>, and primitives and arrays have no property of these names.
\<close>

fun getProp :: "jsval \<Rightarrow> string \<Rightarrow> js_error + jsval" where
  "getProp Undefined k = Inl TypeError"
| "getProp JNull k = Inl TypeError"
| "getProp (JObj kvs) k = (case map_of (rev kvs) k of None \<Rightarrow> Inr Undefined | Some v \<Rightarrow> Inr v)"
| "getProp v k = Inr Undefined"

text \<open>Optional chaining \<open>x?.k\<close>.\<close>

fun getPropOpt :: "jsval \<Rightarrow> string \<Rightarrow> jsval" where
  "getPropOpt Undefined k = Undefined"
| "getPropOpt JNull k = Undefined"
| "getPropOpt v k = (case getProp v k of Inl e \<Rightarrow> Undefined | Inr r \<Rightarrow> r)"

section \<open>Props, state and observable effects\<close>

text \<open>
  The props of \<open>NoteEditor\<close>. \<open>noteId\<close> is an optional string, \<open>logoTextProp\<close> is \<open>None\<close>
  when the caller leaves it out. The callbacks are opaque: the model records whether each
  was supplied and logs every invocation. The parameter list binds \<open>onContentChange\<close> twice
  (once under the alias \<open>onHomepageContentChange\<close>), so both names denote the same prop.
\<close>

record props =
  noteId :: "string option"
  initialData :: jsval
  logoTextProp :: "string option"
  onContentChange :: bool
  onTitleChange :: bool
  isDisabled :: bool

text \<open>\<open>!!noteId\<close>: an absent or empty id is falsy.\<close>

definition hasNoteId :: "props \<Rightarrow> bool" where
  "hasNoteId p = (case noteId p of None \<Rightarrow> False | Some n \<Rightarrow> n \<noteq> [])"

text \<open>The alias \<open>onHomepageContentChange\<close> of the prop \<open>onContentChange\<close>.\<close>

definition onHomepageContentChange :: "props \<Rightarrow> bool" where
  "onHomepageContentChange p = onContentChange p"

text \<open>The default \<open>logoText = "NoteSpace"\<close>.\<close>

definition logoText :: "props \<Rightarrow> string" where
  "logoText p = (case logoTextProp p of None \<Rightarrow> ''NoteSpace'' | Some l \<Rightarrow> l)"

text \<open>The template string \<open>`/api/note/${noteId}`\<close>.\<close>

definition note_url :: "props \<Rightarrow> string" where
  "note_url p = ''/api/note/'' @ (case noteId p of None \<Rightarrow> ''undefined'' | Some n \<Rightarrow> n)"

text \<open>The body \<open>{content, title, logoText}\<close> of a save request.\<close>

record body =
  body_content :: jsval
  body_title :: jsval
  body_logoText :: string

datatype request = GET string | PUT string body

datatype callback = OnTitleChange jsval | OnContentChange "jsval list"

text \<open>
  A pending call of a debounced function: the time at which it is due and its arguments.
\<close>

type_synonym 'a timer = "(nat \<times> 'a) option"

text \<open>
  The component state: the four \<open>useState\<close> cells (\<open>val\<close> is the source's \<open>value\<close>), the
  ref \<open>isMounted.current\<close>, the clock in milliseconds, the pending calls of the two debounced
  functions, the number of suspended \<open>loadNote\<close> and \<open>saveNote\<close> continuations, and the logs
  of what the component did to the outside: requests issued, callbacks invoked, errors
  written to the console.
\<close>

record state =
  val :: jsval
  title :: jsval
  isLoading :: bool
  isSaving :: bool
  isMounted :: bool
  now :: nat
  saveTimer :: "(jsval \<times> jsval \<times> string) timer"
  notifyTimer :: "(jsval \<times> jsval) timer"
  pendingLoads :: nat
  pendingSaves :: nat
  requests :: "request list"
  calls :: "callback list"
  console :: "string list"

section \<open>The debounce helper\<close>

text \<open>Modelled from the spec: the helper \<open>debounce\<close> imported from \<open>lib/utils\<close> is not
  among the sources. The spec describes it as a cancellable deferred task: each new trigger
  cancels or replaces any pending scheduled task of that instance and arms a fresh timer of
  the given delay. \<open>debounce delay t args tm\<close> is a call of the debounced function at time
  \<open>t\<close>, with \<open>tm\<close> the call that was pending.\<close>

definition debounce :: "nat \<Rightarrow> nat \<Rightarrow> 'a \<Rightarrow> 'a timer \<Rightarrow> 'a timer" where
  "debounce delay t args tm = Some (t + delay, args)"

text \<open>Modelled from the spec: the timer of \<open>debounce\<close> (\<open>lib/utils\<close>, not among the
  sources) runs the deferred task once the quiet period has elapsed, with the arguments of
  the last trigger. \<open>due t tm\<close> gives these arguments when the pending call has reached its
  time at \<open>t\<close>.\<close>

definition due :: "nat \<Rightarrow> 'a timer \<Rightarrow> 'a option" where
  "due t tm = (case tm of None \<Rightarrow> None | Some (d, args) \<Rightarrow> if d \<le> t then Some args else None)"

section \<open>The component\<close>

subsection \<open>State setters\<close>

definition setValue :: "jsval \<Rightarrow> state \<Rightarrow> state" where
  "setValue v s = s\<lparr>val := v\<rparr>"

definition setTitle :: "jsval \<Rightarrow> state \<Rightarrow> state" where
  "setTitle v s = s\<lparr>title := v\<rparr>"

definition setIsLoading :: "bool \<Rightarrow> state \<Rightarrow> state" where
  "setIsLoading b s = s\<lparr>isLoading := b\<rparr>"

definition setIsSaving :: "bool \<Rightarrow> state \<Rightarrow> state" where
  "setIsSaving b s = s\<lparr>isSaving := b\<rparr>"

subsection \<open>Loading\<close>

text \<open>
  \<open>loadNote\<close> up to its first \<open>await\<close>: the loading flag is set and the request goes out.
\<close>

definition loadNote :: "props \<Rightarrow> state \<Rightarrow> state" where
  "loadNote p s =
     (let s1 = setIsLoading True s
      in s1\<lparr>requests := requests s1 @ [GET (note_url p)],
             pendingLoads := Suc (pendingLoads s1)\<rparr>)"

text \<open>The load effect, with its early return.\<close>

definition loadEffect :: "props \<Rightarrow> state \<Rightarrow> state" where
  "loadEffect p s = (if \<not> hasNoteId p \<or> truthy (initialData p) then s else loadNote p s)"

text \<open>
  How the awaited \<open>fetch\<close> and \<open>res.json()\<close> end: the fetch rejects, the body fails to
  parse, or the body parses to a value.
\<close>

datatype load_result = Fetch_rejected | Json_rejected | Json jsval

text \<open>
  The statements of the \<open>try\<close> block after the body is parsed. The result is the state
  reached and the error thrown, if any; a setter that ran before a throw keeps its effect.
\<close>

definition loadNote_body :: "jsval \<Rightarrow> state \<Rightarrow> state \<times> js_error option" where
  "loadNote_body d s =
     (case getProp d ''success'' of
        Inl e \<Rightarrow> (s, Some e)
      | Inr ok \<Rightarrow>
          if \<not> truthy ok then (s, None)
          else (case getProp d ''data'' of
                  Inl e \<Rightarrow> (s, Some e)
                | Inr dd \<Rightarrow>
                    (case getProp dd ''content'' of
                       Inl e \<Rightarrow> (s, Some e)
                     | Inr c \<Rightarrow>
                         (let s1 = setValue (or_js c (JStr [])) s
                          in case getProp dd ''title'' of
                               Inl e \<Rightarrow> (s1, Some e)
                             | Inr t \<Rightarrow> (setTitle (or_js t (JStr [])) s1, None)))))"

text \<open>
  \<open>loadNote\<close> from its \<open>await\<close> on: the \<open>try\<close> block, the \<open>catch\<close> that logs, and the
  \<open>finally\<close> that clears the loading flag.
\<close>

definition loadNote_resume :: "load_result \<Rightarrow> state \<Rightarrow> state" where
  "loadNote_resume r s =
     (let (s1, err) = (case r of
                         Fetch_rejected \<Rightarrow> (s, Some NetworkError)
                       | Json_rejected \<Rightarrow> (s, Some SyntaxError)
                       | Json d \<Rightarrow> loadNote_body d s);
          s2 = (case err of
                  None \<Rightarrow> s1
                | Some e \<Rightarrow> s1\<lparr>console := console s1 @ [''Failed to load note:'']\<rparr>)
      in setIsLoading False s2)"

subsection \<open>Saving\<close>

text \<open>\<open>saveNote\<close> up to its \<open>await\<close>.\<close>

definition saveNote :: "props \<Rightarrow> jsval \<Rightarrow> jsval \<Rightarrow> string \<Rightarrow> state \<Rightarrow> state" where
  "saveNote p newContent newTitle newLogo s =
     (if \<not> hasNoteId p then s
      else
        (let s1 = (if isMounted s then setIsSaving True s else s)
         in s1\<lparr>requests := requests s1 @
                  [PUT (note_url p)
                     \<lparr>body_content = newContent, body_title = newTitle, body_logoText = newLogo\<rparr>],
                pendingSaves := Suc (pendingSaves s1)\<rparr>))"

datatype fetch_result = Resolved | Rejected

text \<open>\<open>saveNote\<close> from its \<open>await\<close> on: the \<open>catch\<close> that logs and the \<open>finally\<close>.\<close>

definition saveNote_resume :: "fetch_result \<Rightarrow> state \<Rightarrow> state" where
  "saveNote_resume r s =
     (let s1 = (case r of
                  Resolved \<Rightarrow> s
                | Rejected \<Rightarrow> s\<lparr>console := console s @ [''Failed to save:'']\<rparr>)
      in if isMounted s1 then setIsSaving False s1 else s1)"

subsection \<open>The debounced functions\<close>

text \<open>\<open>debouncedSave\<close>: \<open>saveNote\<close> debounced by 1000 ms.\<close>

definition debouncedSave :: "jsval \<Rightarrow> jsval \<Rightarrow> string \<Rightarrow> state \<Rightarrow> state" where
  "debouncedSave c t l s = s\<lparr>saveTimer := debounce 1000 (now s) (c, t, l) (saveTimer s)\<rparr>"

text \<open>\<open>debouncedContentChange\<close>: the guarded call of \<open>onContentChange\<close> debounced by 500 ms.\<close>

definition debouncedContentChange :: "jsval \<Rightarrow> jsval \<Rightarrow> state \<Rightarrow> state" where
  "debouncedContentChange c t s =
     s\<lparr>notifyTimer := debounce 500 (now s) (c, t) (notifyTimer s)\<rparr>"

text \<open>The callback wrapped by \<open>debouncedContentChange\<close>.\<close>

definition contentChange_callback :: "props \<Rightarrow> jsval \<Rightarrow> jsval \<Rightarrow> state \<Rightarrow> state" where
  "contentChange_callback p c t s =
     (if onContentChange p then s\<lparr>calls := calls s @ [OnContentChange [c, t]]\<rparr> else s)"

subsection \<open>The edit-handling effect\<close>

text \<open>
  The effect with dependencies \<open>[value, title, logoText]\<close>. \<open>adjustHeight\<close> only touches the
  style of the textarea and is left out.
\<close>

definition editEffect :: "props \<Rightarrow> state \<Rightarrow> state" where
  "editEffect p s =
     (let s1 = (if onTitleChange p then s\<lparr>calls := calls s @ [OnTitleChange (title s)]\<rparr> else s);
          s2 = (if onContentChange p \<and> hasNoteId p
                then s1\<lparr>calls := calls s1 @ [OnContentChange [val s1]]\<rparr> else s1);
          s3 = (if hasNoteId p \<and> \<not> isLoading s2
                then debouncedSave (val s2) (title s2) (logoText p) s2 else s2)
      in if \<not> hasNoteId p \<and> onHomepageContentChange p
         then debouncedContentChange (val s3) (title s3) s3 else s3)"

subsection \<open>Rendering\<close>

datatype view =
    Loading_placeholder
  | Expired_notice
  | Editor jsval jsval bool

text \<open>
  The three returns of the component. \<open>Editor t v b\<close> is the title input showing \<open>t\<close>, the
  textarea showing \<open>v\<close>, and the indicator "Saving..." when \<open>b\<close>.
\<close>

definition render :: "props \<Rightarrow> state \<Rightarrow> view" where
  "render p s =
     (if isLoading s then Loading_placeholder
      else if isDisabled p then Expired_notice
      else Editor (title s) (val s) (isSaving s))"

fun has_inputs :: "view \<Rightarrow> bool" where
  "has_inputs (Editor t v b) = True"
| "has_inputs w = False"

subsection \<open>Mounting\<close>

text \<open>The \<open>useState\<close> and \<open>useRef\<close> initialisers of the first render, at time 0.\<close>

definition initial_state :: "props \<Rightarrow> state" where
  "initial_state p =
     \<lparr>val = or_js (getPropOpt (initialData p) ''content'') (JStr []),
      title = or_js (getPropOpt (initialData p) ''title'') (JStr []),
      isLoading = (\<not> truthy (initialData p) \<and> hasNoteId p),
      isSaving = False,
      isMounted = True,
      now = 0,
      saveTimer = None,
      notifyTimer = None,
      pendingLoads = 0,
      pendingSaves = 0,
      requests = [],
      calls = [],
      console = []\<rparr>"

text \<open>
  After the first render the effects run in source order: the unmount-safety effect (which
  only registers its cleanup), the load effect, the edit-handling effect.
\<close>

definition mount :: "props \<Rightarrow> state" where
  "mount p = editEffect p (loadEffect p (initial_state p))"

section \<open>Events\<close>

text \<open>
  What can happen to a mounted component with fixed props: the user types into the title
  input or the textarea, time passes, a suspended load or save is resumed, the component is
  unmounted.
\<close>

datatype event =
    Type_title string
  | Type_content string
  | Elapse nat
  | Load_done load_result
  | Save_done fetch_result
  | Unmount

text \<open>
  After a batch of state updates the component renders again while it is mounted, and the
  edit-handling effect runs again when one of its dependencies changed. The updates one
  event handler or one continuation makes are one batch. \<open>logoText\<close> is a prop and the
  props are fixed.
\<close>

definition commit :: "props \<Rightarrow> state \<Rightarrow> state \<Rightarrow> state" where
  "commit p old s =
     (if isMounted s \<and> (val s \<noteq> val old \<or> title s \<noteq> title old) then editEffect p s else s)"

text \<open>Pending debounced calls that are due run; nothing cancels them at unmount.\<close>

definition fireSave :: "props \<Rightarrow> state \<Rightarrow> state" where
  "fireSave p s =
     (case due (now s) (saveTimer s) of
        None \<Rightarrow> s
      | Some (c, t, l) \<Rightarrow> saveNote p c t l (s\<lparr>saveTimer := None\<rparr>))"

definition fireNotify :: "props \<Rightarrow> state \<Rightarrow> state" where
  "fireNotify p s =
     (case due (now s) (notifyTimer s) of
        None \<Rightarrow> s
      | Some (c, t) \<Rightarrow> contentChange_callback p c t (s\<lparr>notifyTimer := None\<rparr>))"

definition elapse :: "props \<Rightarrow> nat \<Rightarrow> state \<Rightarrow> state" where
  "elapse p d s = fireNotify p (fireSave p (s\<lparr>now := now s + d\<rparr>))"

text \<open>
  The user can type only while the inputs are on screen, and an input event always carries
  a text different from the one shown.
\<close>

definition inputs_rendered :: "props \<Rightarrow> state \<Rightarrow> bool" where
  "inputs_rendered p s = (isMounted s \<and> has_inputs (render p s))"

fun step :: "props \<Rightarrow> state \<Rightarrow> event \<Rightarrow> state" where
  "step p s (Type_title t) =
     (if inputs_rendered p s \<and> JStr t \<noteq> title s then commit p s (setTitle (JStr t) s) else s)"
| "step p s (Type_content c) =
     (if inputs_rendered p s \<and> JStr c \<noteq> val s then commit p s (setValue (JStr c) s) else s)"
| "step p s (Elapse d) = elapse p d s"
| "step p s (Load_done r) =
     (if pendingLoads s = 0 then s
      else commit p s (loadNote_resume r (s\<lparr>pendingLoads := pendingLoads s - 1\<rparr>)))"
| "step p s (Save_done r) =
     (if pendingSaves s = 0 then s
      else saveNote_resume r (s\<lparr>pendingSaves := pendingSaves s - 1\<rparr>))"
| "step p s Unmount = s\<lparr>isMounted := False\<rparr>"

fun run :: "props \<Rightarrow> state \<Rightarrow> event list \<Rightarrow> state" where
  "run p s [] = s"
| "run p s (e # es) = run p (step p s e) es"

section \<open>Vocabulary of the properties\<close>

text \<open>
  A load succeeded when the body was parsed and its \<open>success\<close> property is truthy; a
  rejected fetch, an unparsable body, and a body whose \<open>success\<close> is absent or falsy did
  not.
\<close>

fun load_success :: "load_result \<Rightarrow> bool" where
  "load_success (Json d) = (case getProp d ''success'' of Inl e \<Rightarrow> False | Inr ok \<Rightarrow> truthy ok)"
| "load_success r = False"

fun is_GET :: "request \<Rightarrow> bool" where
  "is_GET (GET u) = True"
| "is_GET (PUT u b) = False"

text \<open>
  A burst of edits: a first edit, then further edits each after a gap in milliseconds.
\<close>

datatype edit = Edit_title string | Edit_content string

fun edit_event :: "edit \<Rightarrow> event" where
  "edit_event (Edit_title t) = Type_title t"
| "edit_event (Edit_content c) = Type_content c"

fun burst_events :: "(nat \<times> edit) list \<Rightarrow> event list" where
  "burst_events [] = []"
| "burst_events ((d, e) # es) = Elapse d # edit_event e # burst_events es"

text \<open>The content and the title after a list of edits.\<close>

fun edited_content :: "jsval \<Rightarrow> edit list \<Rightarrow> jsval" where
  "edited_content v [] = v"
| "edited_content v (Edit_content c # es) = edited_content (JStr c) es"
| "edited_content v (Edit_title t # es) = edited_content v es"

fun edited_title :: "jsval \<Rightarrow> edit list \<Rightarrow> jsval" where
  "edited_title v [] = v"
| "edited_title v (Edit_title t # es) = edited_title (JStr t) es"
| "edited_title v (Edit_content c # es) = edited_title v es"

text \<open>Every edit of the list changes the text of the field it is typed into.\<close>

fun real_edits :: "jsval \<Rightarrow> jsval \<Rightarrow> edit list \<Rightarrow> bool" where
  "real_edits v t [] = True"
| "real_edits v t (Edit_content c # es) = (JStr c \<noteq> v \<and> real_edits (JStr c) t es)"
| "real_edits v t (Edit_title t' # es) = (JStr t' \<noteq> t \<and> real_edits v (JStr t') es)"

text \<open>
  The state right after an edit of a loaded, mounted note: a save of the current text is
  pending, due one debounce window from now.
\<close>

definition armed :: "props \<Rightarrow> state \<Rightarrow> bool" where
  "armed p s =
     (isMounted s \<and> \<not> isLoading s
      \<and> saveTimer s = Some (now s + 1000, val s, title s, logoText p))"

section \<open>Example inputs\<close>

text \<open>A note page whose note is fetched by the component itself.\<close>

definition note_props :: props where
  "note_props =
     \<lparr>noteId = Some ''n1'', initialData = Undefined, logoTextProp = None,
      onContentChange = True, onTitleChange = True, isDisabled = False\<rparr>"

text \<open>A note page that hands the note over as \<open>initialData\<close>.\<close>

definition preloaded_props :: props where
  "preloaded_props =
     \<lparr>noteId = Some ''n1'',
      initialData = JObj [(''title'', JStr ''Plan''), (''content'', JStr ''milk'')],
      logoTextProp = Some ''Logo'',
      onContentChange = True, onTitleChange = True, isDisabled = False\<rparr>"

text \<open>The homepage: no note id, the content-change callback supplied.\<close>

definition homepage_props :: props where
  "homepage_props =
     \<lparr>noteId = None, initialData = Undefined, logoTextProp = None,
      onContentChange = True, onTitleChange = False, isDisabled = False\<rparr>"

text \<open>The two note pages with the note expired.\<close>

definition expired_props :: props where
  "expired_props = note_props\<lparr>isDisabled := True\<rparr>"

definition expired_preloaded_props :: props where
  "expired_preloaded_props = preloaded_props\<lparr>isDisabled := True\<rparr>"

text \<open>
  Responses of the load request: a full one, one whose note has no title, and a refusal.
\<close>

definition loaded_response :: jsval where
  "loaded_response =
     JObj [(''success'', JBool True),
           (''data'', JObj [(''title'', JStr ''T''), (''content'', JStr ''C'')])]"

definition untitled_response :: jsval where
  "untitled_response =
     JObj [(''success'', JBool True), (''data'', JObj [(''content'', JStr ''C'')])]"

definition refused_response :: jsval where
  "refused_response = JObj [(''success'', JBool False), (''error'', JStr ''Not found'')]"

section \<open>Basic facts\<close>

lemmas props_simps = hasNoteId_def note_url_def logoText_def onHomepageContentChange_def

lemmas setter_simps = setValue_def setTitle_def setIsLoading_def setIsSaving_def

lemmas example_simps = note_props_def preloaded_props_def homepage_props_def
  expired_props_def expired_preloaded_props_def loaded_response_def untitled_response_def
  refused_response_def

lemma editEffect_frame [simp]:
  "val (editEffect p s) = val s"
  "title (editEffect p s) = title s"
  "isLoading (editEffect p s) = isLoading s"
  "isSaving (editEffect p s) = isSaving s"
  "isMounted (editEffect p s) = isMounted s"
  "now (editEffect p s) = now s"
  "requests (editEffect p s) = requests s"
  "pendingLoads (editEffect p s) = pendingLoads s"
  "pendingSaves (editEffect p s) = pendingSaves s"
  "console (editEffect p s) = console s"
  by (simp_all add: editEffect_def debouncedSave_def debouncedContentChange_def Let_def)

lemma editEffect_calls:
  "calls (editEffect p s) =
     calls s @ (if onTitleChange p then [OnTitleChange (title s)] else [])
             @ (if onContentChange p \<and> hasNoteId p then [OnContentChange [val s]] else [])"
  by (simp add: editEffect_def debouncedSave_def debouncedContentChange_def Let_def)

lemma editEffect_saveTimer:
  "saveTimer (editEffect p s) =
     (if hasNoteId p \<and> \<not> isLoading s then Some (now s + 1000, val s, title s, logoText p)
      else saveTimer s)"
  by (simp add: editEffect_def debouncedSave_def debouncedContentChange_def debounce_def Let_def)

lemma editEffect_notifyTimer:
  "notifyTimer (editEffect p s) =
     (if \<not> hasNoteId p \<and> onContentChange p then Some (now s + 500, val s, title s)
      else notifyTimer s)"
  by (simp add: editEffect_def debouncedSave_def debouncedContentChange_def debounce_def Let_def
      onHomepageContentChange_def)

lemma fireNotify_frame [simp]:
  "val (fireNotify p s) = val s"
  "title (fireNotify p s) = title s"
  "isLoading (fireNotify p s) = isLoading s"
  "isSaving (fireNotify p s) = isSaving s"
  "isMounted (fireNotify p s) = isMounted s"
  "now (fireNotify p s) = now s"
  "requests (fireNotify p s) = requests s"
  "saveTimer (fireNotify p s) = saveTimer s"
  "pendingLoads (fireNotify p s) = pendingLoads s"
  "pendingSaves (fireNotify p s) = pendingSaves s"
  "console (fireNotify p s) = console s"
  by (simp_all add: fireNotify_def contentChange_callback_def split: option.splits prod.splits)

lemma fireSave_frame [simp]:
  "val (fireSave p s) = val s"
  "title (fireSave p s) = title s"
  "isLoading (fireSave p s) = isLoading s"
  "isMounted (fireSave p s) = isMounted s"
  "now (fireSave p s) = now s"
  "notifyTimer (fireSave p s) = notifyTimer s"
  "calls (fireSave p s) = calls s"
  "pendingLoads (fireSave p s) = pendingLoads s"
  "console (fireSave p s) = console s"
  by (simp_all add: fireSave_def saveNote_def setIsSaving_def Let_def split: option.splits prod.splits)

lemma fireSave_not_due:
  "saveTimer s = Some (d, a) \<Longrightarrow> now s < d \<Longrightarrow> fireSave p s = s"
  by (simp add: fireSave_def due_def)

lemma fireSave_none:
  "saveTimer s = None \<Longrightarrow> fireSave p s = s"
  by (simp add: fireSave_def due_def)

lemma fireSave_due:
  "saveTimer s = Some (d, c, t, l) \<Longrightarrow> d \<le> now s \<Longrightarrow>
     fireSave p s = saveNote p c t l (s\<lparr>saveTimer := None\<rparr>)"
  by (simp add: fireSave_def due_def)

lemma saveNote_requests:
  "requests (saveNote p c t l s) =
     requests s @ (if hasNoteId p
                   then [PUT (note_url p) \<lparr>body_content = c, body_title = t, body_logoText = l\<rparr>]
                   else [])"
  by (simp add: saveNote_def setIsSaving_def Let_def)

lemma loadNote_resume_frame [simp]:
  "isSaving (loadNote_resume r s) = isSaving s"
  "isMounted (loadNote_resume r s) = isMounted s"
  "now (loadNote_resume r s) = now s"
  "requests (loadNote_resume r s) = requests s"
  "saveTimer (loadNote_resume r s) = saveTimer s"
  "notifyTimer (loadNote_resume r s) = notifyTimer s"
  "calls (loadNote_resume r s) = calls s"
  "pendingLoads (loadNote_resume r s) = pendingLoads s"
  "pendingSaves (loadNote_resume r s) = pendingSaves s"
  "isLoading (loadNote_resume r s) = False"
  by (auto simp add: loadNote_resume_def loadNote_body_def setValue_def setTitle_def setIsLoading_def Let_def
      split: load_result.splits sum.splits option.splits prod.splits if_splits)

lemma saveNote_resume_frame [simp]:
  "val (saveNote_resume r s) = val s"
  "title (saveNote_resume r s) = title s"
  "isLoading (saveNote_resume r s) = isLoading s"
  "isMounted (saveNote_resume r s) = isMounted s"
  "now (saveNote_resume r s) = now s"
  "requests (saveNote_resume r s) = requests s"
  "saveTimer (saveNote_resume r s) = saveTimer s"
  "notifyTimer (saveNote_resume r s) = notifyTimer s"
  "calls (saveNote_resume r s) = calls s"
  "pendingLoads (saveNote_resume r s) = pendingLoads s"
  "pendingSaves (saveNote_resume r s) = pendingSaves s"
  by (simp_all add: saveNote_resume_def setIsSaving_def Let_def split: fetch_result.splits)

lemma run_append: "run p s (xs @ ys) = run p (run p s xs) ys"
  by (induction xs arbitrary: s) simp_all

lemma step_requests_no_id:
  "\<not> hasNoteId p \<Longrightarrow> requests (step p s e) = requests s"
  by (cases e) (simp_all add: commit_def elapse_def fireSave_def saveNote_def setter_simps
      split: option.splits)

lemma run_requests_no_id:
  "\<not> hasNoteId p \<Longrightarrow> requests (run p s es) = requests s"
  by (induction es arbitrary: s) (simp_all add: step_requests_no_id)

lemma mount_requests_no_id:
  "\<not> hasNoteId p \<Longrightarrow> requests (mount p) = []"
  by (simp add: mount_def loadEffect_def initial_state_def)

lemma step_GETs:
  "filter is_GET (requests (step p s e)) = filter is_GET (requests s)"
  by (cases e) (simp_all add: commit_def elapse_def fireSave_def saveNote_requests
      setter_simps split: option.splits)

lemma run_GETs:
  "filter is_GET (requests (run p s es)) = filter is_GET (requests s)"
  by (induction es arbitrary: s) (simp_all add: step_GETs)

text \<open>Mounting a note that has to be fetched, and mounting one that was handed over.\<close>

lemma mount_loading:
  assumes "hasNoteId p" and "\<not> truthy (initialData p)"
  shows "mount p = editEffect p (loadNote p (initial_state p))"
    and "isLoading (mount p)"
    and "requests (mount p) = [GET (note_url p)]"
    and "pendingLoads (mount p) = 1"
    and "saveTimer (mount p) = None"
  using assms
  by (simp_all add: mount_def loadEffect_def editEffect_saveTimer)
     (simp_all add: loadNote_def initial_state_def setIsLoading_def)

lemma mount_preloaded:
  assumes "hasNoteId p" and "truthy (initialData p)"
  shows "mount p = editEffect p (initial_state p)"
    and "saveTimer (mount p) =
           Some (1000, val (initial_state p), title (initial_state p), logoText p)"
    and "now (mount p) = 0"
    and "requests (mount p) = []"
    and "requests (elapse p 1000 (mount p)) =
           [PUT (note_url p)
              \<lparr>body_content = val (initial_state p), body_title = title (initial_state p),
                 body_logoText = logoText p\<rparr>]"
proof -
  show m: "mount p = editEffect p (initial_state p)"
    using assms by (simp add: mount_def loadEffect_def)
  show t: "saveTimer (mount p) =
           Some (1000, val (initial_state p), title (initial_state p), logoText p)"
    using assms by (simp add: m editEffect_saveTimer) (simp add: initial_state_def)
  show n: "now (mount p) = 0" and r: "requests (mount p) = []"
    by (simp_all add: m) (simp_all add: initial_state_def)
  show "requests (elapse p 1000 (mount p)) =
           [PUT (note_url p)
              \<lparr>body_content = val (initial_state p), body_title = title (initial_state p),
                 body_logoText = logoText p\<rparr>]"
    using t n r assms(1) by (simp add: elapse_def fireSave_due saveNote_requests)
qed

lemma loadNote_resume_failed:
  "\<not> load_success r \<Longrightarrow>
     val (loadNote_resume r s) = val s \<and> title (loadNote_resume r s) = title s"
  by (cases r)
    (auto simp add: loadNote_resume_def loadNote_body_def setIsLoading_def Let_def
      split: sum.splits)

lemma loadNote_resume_success:
  assumes "getProp d ''success'' = Inr ok" and "truthy ok"
    and "getProp d ''data'' = Inr dd"
    and "getProp dd ''content'' = Inr c" and "getProp dd ''title'' = Inr t"
  shows "val (loadNote_resume (Json d) s) = or_js c (JStr [])"
    and "title (loadNote_resume (Json d) s) = or_js t (JStr [])"
  using assms
  by (simp_all add: loadNote_resume_def loadNote_body_def setter_simps Let_def)

section \<open>Saving\<close>

text \<open>
  Claim C8. A call of \<open>saveNote\<close> while \<open>noteId\<close> is unset returns at once: no request is
  issued and no state is touched, so in particular \<open>isSaving\<close> keeps its value. The whole
  state, request log included, is the one the call started from. The same holds when the
  call comes from the debounced function whose time has come: the request log, the saving
  flag and the count of saves in flight stay as they are.
\<close>

theorem saveNote_without_noteId:
  "\<not> hasNoteId p \<Longrightarrow>
     saveNote p newContent newTitle newLogo s = s
   \<and> requests (fireSave p s) = requests s
   \<and> isSaving (fireSave p s) = isSaving s
   \<and> pendingSaves (fireSave p s) = pendingSaves s"
  by (simp add: saveNote_def fireSave_def split: option.splits)

theorem saveNote_without_noteId_witness:
  "\<not> hasNoteId homepage_props \<and>
   saveNote homepage_props (JStr ''text'') (JStr ''head'') ''NoteSpace''
       (initial_state homepage_props)
     = initial_state homepage_props"
  using saveNote_without_noteId [of homepage_props "JStr ''text''" "JStr ''head''"
      "''NoteSpace''" "initial_state homepage_props"]
  by (simp add: homepage_props_def hasNoteId_def)

text \<open>
  Claim C5. An executed save, that is \<open>saveNote\<close> with a note id \<open>n\<close>, issues one PUT to
  \<open>/api/note/n\<close> whose body is exactly the content, title and logo text it was called with.
  \<open>isSaving\<close> becomes true before the request when the component is mounted and is left
  alone otherwise. When the request completes, resolved or rejected, \<open>isSaving\<close> becomes
  false when the component is still mounted and is left alone otherwise; a rejection adds
  one line to the console and nothing else: no further request (no retry), no pending
  debounced call, and the state has no error cell that could be set.
\<close>

theorem saveNote_put:
  assumes "noteId p = Some n" and "n \<noteq> []"
  shows "requests (saveNote p c t l s) =
           requests s @
             [PUT (''/api/note/'' @ n)
                \<lparr>body_content = c, body_title = t, body_logoText = l\<rparr>]
         \<and> isSaving (saveNote p c t l s) = (if isMounted s then True else isSaving s)
         \<and> pendingSaves (saveNote p c t l s) = Suc (pendingSaves s)
         \<and> (\<forall>r. isSaving (saveNote_resume r s) = (if isMounted s then False else isSaving s)
               \<and> requests (saveNote_resume r s) = requests s
               \<and> saveTimer (saveNote_resume r s) = saveTimer s
               \<and> val (saveNote_resume r s) = val s
               \<and> title (saveNote_resume r s) = title s
               \<and> isLoading (saveNote_resume r s) = isLoading s
               \<and> console (saveNote_resume r s) =
                   console s @ (case r of Resolved \<Rightarrow> [] | Rejected \<Rightarrow> [''Failed to save:'']))"
  using assms
  by (simp add: saveNote_def saveNote_resume_def props_simps setter_simps Let_def
      split: fetch_result.splits)

theorem saveNote_put_witness:
  "requests (saveNote preloaded_props (JStr ''milk'') (JStr ''Plan'') ''Logo''
       (initial_state preloaded_props)) =
     [PUT ''/api/note/n1''
        \<lparr>body_content = JStr ''milk'', body_title = JStr ''Plan'', body_logoText = ''Logo''\<rparr>]
   \<and> isSaving (saveNote preloaded_props (JStr ''milk'') (JStr ''Plan'') ''Logo''
       (initial_state preloaded_props))
   \<and> \<not> isSaving (saveNote_resume Rejected
       (saveNote preloaded_props (JStr ''milk'') (JStr ''Plan'') ''Logo''
          (initial_state preloaded_props)))"
proof -
  have id: "noteId preloaded_props = Some ''n1''" and ne: "''n1'' \<noteq> []"
    by (simp_all add: preloaded_props_def)
  have m: "isMounted (initial_state preloaded_props)"
    "requests (initial_state preloaded_props) = []"
    by (simp_all add: initial_state_def)
  have m': "isMounted (saveNote preloaded_props (JStr ''milk'') (JStr ''Plan'') ''Logo''
       (initial_state preloaded_props))"
    using id by (simp add: saveNote_def hasNoteId_def initial_state_def setter_simps)
  show ?thesis
    using saveNote_put [OF id ne, of "JStr ''milk''" "JStr ''Plan''" "''Logo''"
        "initial_state preloaded_props"]
      saveNote_put [OF id ne, of "JStr ''milk''" "JStr ''Plan''" "''Logo''"
        "saveNote preloaded_props (JStr ''milk'') (JStr ''Plan'') ''Logo''
          (initial_state preloaded_props)"]
      m m'
    by simp
qed

section \<open>Loading\<close>

text \<open>
  Claim C9. When a load completes without success (the fetch rejects, the body does not
  parse, or the \<open>success\<close> property of the body is absent or falsy), title and content stay
  exactly as they were when the completion ran, the saving flag too, and \<open>isLoading\<close>
  becomes false. This holds for the continuation of \<open>loadNote\<close> itself and for the whole
  step of the component, which neither schedules a save nor issues a request.
\<close>

theorem load_failure_keeps_text:
  assumes "\<not> load_success r"
  shows "val (loadNote_resume r s) = val s
       \<and> title (loadNote_resume r s) = title s
       \<and> isSaving (loadNote_resume r s) = isSaving s
       \<and> isLoading (loadNote_resume r s) = False
       \<and> (pendingLoads s \<noteq> 0 \<longrightarrow>
            val (step p s (Load_done r)) = val s
          \<and> title (step p s (Load_done r)) = title s
          \<and> isSaving (step p s (Load_done r)) = isSaving s
          \<and> isLoading (step p s (Load_done r)) = False
          \<and> saveTimer (step p s (Load_done r)) = saveTimer s
          \<and> requests (step p s (Load_done r)) = requests s)"
  using loadNote_resume_failed [OF assms]
  by (simp add: commit_def)

theorem load_failure_keeps_text_witness:
  "\<not> load_success (Json refused_response)
   \<and> pendingLoads (mount note_props) \<noteq> 0
   \<and> val (step note_props (mount note_props) (Load_done (Json refused_response))) = JStr []
   \<and> title (step note_props (mount note_props) (Load_done (Json refused_response))) = JStr []
   \<and> \<not> isLoading (step note_props (mount note_props) (Load_done (Json refused_response)))"
proof -
  have f: "\<not> load_success (Json refused_response)"
    by (simp add: refused_response_def)
  have h: "hasNoteId note_props" "\<not> truthy (initialData note_props)"
    by (simp_all add: note_props_def hasNoteId_def)
  have m: "val (mount note_props) = JStr []" "title (mount note_props) = JStr []"
    by (simp_all add: mount_loading(1) [OF h] loadNote_def setIsLoading_def)
       (simp_all add: initial_state_def note_props_def or_js_def)
  show ?thesis
    using load_failure_keeps_text [OF f, of "mount note_props" note_props]
      f m mount_loading(4) [OF h]
    by (simp del: step.simps)
qed

section \<open>The save scheduled at mount\<close>

text \<open>
  Claim C10. When \<open>noteId\<close> is set and \<open>isLoading\<close> starts false (the note came as
  \<open>initialData\<close>), mounting runs the edit-handling effect once on the initial values: no
  load is started, and a debounced save of the unedited initial content, title and logo text
  is pending, due 1000 ms after mount. With no edit at all, that save issues its PUT when
  the 1000 ms have passed.
\<close>

theorem mount_schedules_save:
  assumes "hasNoteId p" and "\<not> isLoading (initial_state p)"
  shows "mount p = editEffect p (initial_state p)
       \<and> saveTimer (mount p) =
           Some (1000, val (initial_state p), title (initial_state p), logoText p)
       \<and> val (initial_state p) = or_js (getPropOpt (initialData p) ''content'') (JStr [])
       \<and> title (initial_state p) = or_js (getPropOpt (initialData p) ''title'') (JStr [])
       \<and> requests (mount p) = []
       \<and> requests (run p (mount p) [Elapse 1000]) =
           [PUT (note_url p)
              \<lparr>body_content = val (initial_state p), body_title = title (initial_state p),
                 body_logoText = logoText p\<rparr>]"
proof -
  from assms have td: "truthy (initialData p)"
    by (simp add: initial_state_def)
  note m = mount_preloaded [OF assms(1) td]
  have "val (initial_state p) = or_js (getPropOpt (initialData p) ''content'') (JStr [])"
    "title (initial_state p) = or_js (getPropOpt (initialData p) ''title'') (JStr [])"
    by (simp_all add: initial_state_def)
  with m show ?thesis
    by simp
qed

theorem mount_schedules_save_witness:
  "hasNoteId preloaded_props \<and> \<not> isLoading (initial_state preloaded_props)
   \<and> saveTimer (mount preloaded_props) = Some (1000, JStr ''milk'', JStr ''Plan'', ''Logo'')
   \<and> requests (run preloaded_props (mount preloaded_props) [Elapse 1000]) =
       [PUT ''/api/note/n1''
          \<lparr>body_content = JStr ''milk'', body_title = JStr ''Plan'', body_logoText = ''Logo''\<rparr>]"
proof -
  have h: "hasNoteId preloaded_props" "\<not> isLoading (initial_state preloaded_props)"
    by (simp_all add: preloaded_props_def hasNoteId_def initial_state_def)
  have v: "val (initial_state preloaded_props) = JStr ''milk''"
    "title (initial_state preloaded_props) = JStr ''Plan''"
    "logoText preloaded_props = ''Logo''" "note_url preloaded_props = ''/api/note/n1''"
    by (simp_all add: preloaded_props_def initial_state_def or_js_def props_simps)
  note t = mount_schedules_save [OF h]
  from t have a: "saveTimer (mount preloaded_props) =
      Some (1000, val (initial_state preloaded_props), title (initial_state preloaded_props),
        logoText preloaded_props)"
    by blast
  from t have b: "requests (run preloaded_props (mount preloaded_props) [Elapse 1000]) =
      [PUT (note_url preloaded_props)
         \<lparr>body_content = val (initial_state preloaded_props),
            body_title = title (initial_state preloaded_props),
            body_logoText = logoText preloaded_props\<rparr>]"
    by blast
  from h a b show ?thesis
    unfolding v by blast
qed

section \<open>Immediate notifications\<close>

text \<open>
  Claim C7. Every edit of the title or of the content, typed while the inputs are on screen,
  calls \<open>onTitleChange\<close> with the new title when that callback is supplied, and calls
  \<open>onContentChange\<close> with the new content when that callback is supplied and a note id
  exists. Both calls are made by the step of the edit itself, before any time passes and
  whatever the debounced save is doing: the statement puts no condition on the clock or on
  the pending timers.
\<close>

theorem edit_notifies_at_once:
  assumes "inputs_rendered p s"
  shows "(JStr t \<noteq> title s \<longrightarrow>
            calls (step p s (Type_title t)) =
              calls s @ (if onTitleChange p then [OnTitleChange (JStr t)] else [])
                      @ (if onContentChange p \<and> hasNoteId p
                         then [OnContentChange [val s]] else []))
       \<and> (JStr c \<noteq> val s \<longrightarrow>
            calls (step p s (Type_content c)) =
              calls s @ (if onTitleChange p then [OnTitleChange (title s)] else [])
                      @ (if onContentChange p \<and> hasNoteId p
                         then [OnContentChange [JStr c]] else []))"
  using assms
  by (simp add: commit_def inputs_rendered_def editEffect_calls setValue_def setTitle_def)

theorem edit_notifies_at_once_witness:
  "inputs_rendered preloaded_props (mount preloaded_props)
   \<and> calls (step preloaded_props (mount preloaded_props) (Type_title ''Plans'')) =
       calls (mount preloaded_props)
         @ [OnTitleChange (JStr ''Plans''), OnContentChange [JStr ''milk'']]
   \<and> calls (step preloaded_props (mount preloaded_props) (Type_content ''milk, eggs'')) =
       calls (mount preloaded_props)
         @ [OnTitleChange (JStr ''Plan''), OnContentChange [JStr ''milk, eggs'']]"
proof -
  have h: "hasNoteId preloaded_props" "truthy (initialData preloaded_props)"
    "onContentChange preloaded_props" "onTitleChange preloaded_props"
    by (simp_all add: preloaded_props_def hasNoteId_def)
  have v: "val (mount preloaded_props) = JStr ''milk''"
    "title (mount preloaded_props) = JStr ''Plan''"
    "isMounted (mount preloaded_props)" "\<not> isLoading (mount preloaded_props)"
    by (simp_all add: mount_preloaded(1) [OF h(1,2)])
       (simp_all add: preloaded_props_def initial_state_def or_js_def hasNoteId_def)
  have i: "inputs_rendered preloaded_props (mount preloaded_props)"
    using v by (simp add: inputs_rendered_def render_def) (simp add: preloaded_props_def)
  show ?thesis
    using edit_notifies_at_once [OF i, of "''Plans''" "''milk, eggs''"] i v h
    by (simp del: step.simps)
qed

section \<open>Homepage mode\<close>

text \<open>
  Claim C6. With \<open>noteId\<close> unset and the content-change callback supplied, every run of the
  edit-handling effect, and so every edit of the content or of the title, leaves a debounced
  notification pending that is due 500 ms later and carries the current content and title.
  When that time has come the callback is called with both, and not before. No request is
  issued by the effect, and none by any sequence of events after mount: nothing is
  persisted to the backend.
\<close>

theorem homepage_notifies_debounced:
  assumes "\<not> hasNoteId p" and "onContentChange p"
  shows "notifyTimer (editEffect p s) = Some (now s + 500, val s, title s)
       \<and> requests (editEffect p s) = requests s
       \<and> saveTimer (editEffect p s) = saveTimer s
       \<and> (inputs_rendered p s \<and> JStr c \<noteq> val s \<longrightarrow>
            notifyTimer (step p s (Type_content c)) = Some (now s + 500, JStr c, title s))
       \<and> (inputs_rendered p s \<and> JStr t \<noteq> title s \<longrightarrow>
            notifyTimer (step p s (Type_title t)) = Some (now s + 500, val s, JStr t))
       \<and> (500 \<le> d \<longrightarrow>
            calls (step p (editEffect p s) (Elapse d)) =
              calls (editEffect p s) @ [OnContentChange [val s, title s]])
       \<and> (d' < 500 \<longrightarrow> calls (step p (editEffect p s) (Elapse d')) = calls (editEffect p s))
       \<and> requests (run p (mount p) es) = []"
  using assms
  by (simp add: editEffect_notifyTimer editEffect_saveTimer commit_def inputs_rendered_def
      setValue_def setTitle_def elapse_def fireNotify_def due_def contentChange_callback_def
      run_requests_no_id mount_requests_no_id)

theorem homepage_notifies_debounced_witness:
  "\<not> hasNoteId homepage_props \<and> onContentChange homepage_props
   \<and> inputs_rendered homepage_props (mount homepage_props)
   \<and> notifyTimer (step homepage_props (mount homepage_props) (Type_content ''hi'')) =
       Some (500, JStr ''hi'', JStr [])
   \<and> notifyTimer (step homepage_props (mount homepage_props) (Type_title ''Hello'')) =
       Some (500, JStr [], JStr ''Hello'')
   \<and> calls (step homepage_props (editEffect homepage_props (mount homepage_props))
          (Elapse 500)) =
       calls (editEffect homepage_props (mount homepage_props))
         @ [OnContentChange [JStr [], JStr []]]
   \<and> calls (step homepage_props (editEffect homepage_props (mount homepage_props))
          (Elapse 499)) =
       calls (editEffect homepage_props (mount homepage_props))
   \<and> requests (run homepage_props (mount homepage_props)
          [Type_content ''hi'', Elapse 500]) = []"
proof -
  have h: "\<not> hasNoteId homepage_props" "onContentChange homepage_props"
    by (simp_all add: homepage_props_def hasNoteId_def)
  have v: "val (mount homepage_props) = JStr []" "title (mount homepage_props) = JStr []"
    "now (mount homepage_props) = 0"
    "isMounted (mount homepage_props)" "\<not> isLoading (mount homepage_props)"
    using h by (simp_all add: mount_def loadEffect_def)
       (simp_all add: initial_state_def homepage_props_def or_js_def)
  have i: "inputs_rendered homepage_props (mount homepage_props)"
    using v by (simp add: inputs_rendered_def render_def) (simp add: homepage_props_def)
  show ?thesis
    using homepage_notifies_debounced [OF h, of "mount homepage_props" "''hi''" "''Hello''"
        500 499 "[Type_content ''hi'', Elapse 500]"] h i v
    by (simp del: step.simps run.simps)
qed

section \<open>The initial load\<close>

text \<open>
  Claim C4. With \<open>noteId\<close> set and no \<open>initialData\<close>, the component starts with \<open>isLoading\<close>
  true and mounting issues one GET for \<open>/api/note/{noteId}\<close>; whatever happens afterwards,
  that GET stays the only one. However the load completes (rejected fetch, unparsable
  body, any parsed body), \<open>isLoading\<close> is false afterwards. On success, with the body's
  \<open>data\<close> holding \<open>content\<close> \<open>c\<close> and \<open>title\<close> \<open>t\<close>, content and title become \<open>c || ""\<close> and
  \<open>t || ""\<close>: the empty string when the property is absent (or otherwise falsy).
\<close>

theorem load_on_mount:
  assumes "hasNoteId p" and "\<not> truthy (initialData p)"
  shows "isLoading (initial_state p)
       \<and> isLoading (mount p)
       \<and> requests (mount p) = [GET (note_url p)]
       \<and> (\<forall>n. noteId p = Some n \<longrightarrow> note_url p = ''/api/note/'' @ n)
       \<and> (\<forall>es. filter is_GET (requests (run p (mount p) es)) = [GET (note_url p)])
       \<and> (\<forall>r. isLoading (step p (mount p) (Load_done r)) = False)
       \<and> (\<forall>d ok dd c t.
            getProp d ''success'' = Inr ok \<and> truthy ok \<and> getProp d ''data'' = Inr dd
            \<and> getProp dd ''content'' = Inr c \<and> getProp dd ''title'' = Inr t
            \<longrightarrow> val (step p (mount p) (Load_done (Json d))) = or_js c (JStr [])
              \<and> title (step p (mount p) (Load_done (Json d))) = or_js t (JStr [])
              \<and> or_js Undefined (JStr []) = JStr [])"
proof -
  note m = mount_loading [OF assms]
  have a: "isLoading (initial_state p)"
    using assms by (simp add: initial_state_def)
  have b: "\<forall>es. filter is_GET (requests (run p (mount p) es)) = [GET (note_url p)]"
    by (simp add: run_GETs m(3))
  have c: "\<forall>r. isLoading (step p (mount p) (Load_done r)) = False"
    by (simp add: m(4) commit_def)
  have d: "\<forall>d ok dd c t.
            getProp d ''success'' = Inr ok \<and> truthy ok \<and> getProp d ''data'' = Inr dd
            \<and> getProp dd ''content'' = Inr c \<and> getProp dd ''title'' = Inr t
            \<longrightarrow> val (step p (mount p) (Load_done (Json d))) = or_js c (JStr [])
              \<and> title (step p (mount p) (Load_done (Json d))) = or_js t (JStr [])
              \<and> or_js Undefined (JStr []) = JStr []"
    by (simp add: m(4) commit_def loadNote_resume_success or_js_def)
  have e: "\<forall>n. noteId p = Some n \<longrightarrow> note_url p = ''/api/note/'' @ n"
    by (simp add: note_url_def)
  from a b c d e m(2,3) show ?thesis
    by blast
qed

theorem load_on_mount_witness:
  "hasNoteId note_props \<and> \<not> truthy (initialData note_props)
   \<and> isLoading (mount note_props)
   \<and> requests (mount note_props) = [GET ''/api/note/n1'']
   \<and> filter is_GET (requests (run note_props (mount note_props)
        [Load_done (Json untitled_response), Type_content ''x'', Elapse 1000])) =
       [GET ''/api/note/n1'']
   \<and> \<not> isLoading (step note_props (mount note_props) (Load_done Fetch_rejected))
   \<and> val (step note_props (mount note_props) (Load_done (Json untitled_response))) = JStr ''C''
   \<and> title (step note_props (mount note_props) (Load_done (Json untitled_response))) = JStr []"
proof -
  have h: "hasNoteId note_props" "\<not> truthy (initialData note_props)"
    by (simp_all add: note_props_def hasNoteId_def)
  have u: "noteId note_props = Some ''n1''"
    by (simp add: note_props_def)
  have g: "getProp untitled_response ''success'' = Inr (JBool True) \<and> truthy (JBool True)
      \<and> getProp untitled_response ''data'' = Inr (JObj [(''content'', JStr ''C'')])
      \<and> getProp (JObj [(''content'', JStr ''C'')]) ''content'' = Inr (JStr ''C'')
      \<and> getProp (JObj [(''content'', JStr ''C'')]) ''title'' = Inr Undefined"
    by (simp add: untitled_response_def)
  note t = load_on_mount [OF h]
  from t u have url: "note_url note_props = ''/api/note/n1''"
    by simp
  from t have a: "isLoading (mount note_props)"
    and b: "requests (mount note_props) = [GET (note_url note_props)]"
    and c: "filter is_GET (requests (run note_props (mount note_props)
        [Load_done (Json untitled_response), Type_content ''x'', Elapse 1000])) =
       [GET (note_url note_props)]"
    and d: "\<not> isLoading (step note_props (mount note_props) (Load_done Fetch_rejected))"
    by blast+
  from t g have e:
    "val (step note_props (mount note_props) (Load_done (Json untitled_response))) =
       or_js (JStr ''C'') (JStr [])"
    "title (step note_props (mount note_props) (Load_done (Json untitled_response))) =
       or_js Undefined (JStr [])"
    by blast+
  from h a b c d e show ?thesis
    unfolding url by (simp del: step.simps run.simps add: or_js_def)
qed

section \<open>The expired note\<close>

text \<open>
  Claim C2, as stated, fails. An expired note page whose note has to be fetched shows no
  inputs and still issues the GET at mount; one that was handed its note still issues
  the PUT of the save scheduled at mount, 1000 ms later.
\<close>

theorem disabled_still_requests:
  "isDisabled expired_props \<and> hasNoteId expired_props
   \<and> \<not> has_inputs (render expired_props (mount expired_props))
   \<and> requests (mount expired_props) = [GET ''/api/note/n1'']
   \<and> isDisabled expired_preloaded_props \<and> hasNoteId expired_preloaded_props
   \<and> \<not> has_inputs (render expired_preloaded_props (mount expired_preloaded_props))
   \<and> requests (run expired_preloaded_props (mount expired_preloaded_props) [Elapse 1000]) =
       [PUT ''/api/note/n1''
          \<lparr>body_content = JStr ''milk'', body_title = JStr ''Plan'', body_logoText = ''Logo''\<rparr>]"
proof -
  have h: "hasNoteId expired_props" "\<not> truthy (initialData expired_props)"
    "isDisabled expired_props" "note_url expired_props = ''/api/note/n1''"
    by (simp_all add: expired_props_def note_props_def props_simps)
  have h': "hasNoteId expired_preloaded_props" "truthy (initialData expired_preloaded_props)"
    "isDisabled expired_preloaded_props"
    "note_url expired_preloaded_props = ''/api/note/n1''"
    "logoText expired_preloaded_props = ''Logo''"
    "val (initial_state expired_preloaded_props) = JStr ''milk''"
    "title (initial_state expired_preloaded_props) = JStr ''Plan''"
    by (simp_all add: expired_preloaded_props_def preloaded_props_def props_simps
        initial_state_def or_js_def)
  have r: "\<not> has_inputs (render expired_props (mount expired_props))"
    "\<not> has_inputs (render expired_preloaded_props (mount expired_preloaded_props))"
    using h(3) h'(3) by (simp_all add: render_def)
  from h h' r mount_loading(3) [OF h(1,2)] mount_preloaded(5) [OF h'(1,2)]
  show ?thesis
    by simp
qed

text \<open>
  Claim C2, amended. Whenever \<open>isDisabled\<close> is true the component renders neither the title
  input nor the textarea, whatever its state, so nothing can be typed. Requests are not
  held back by \<open>isDisabled\<close>: with \<open>noteId\<close> set, mounting still issues the GET when
  \<open>initialData\<close> is absent, and otherwise still schedules the save whose PUT goes out 1000 ms
  after mount.
\<close>

theorem disabled_renders_no_inputs:
  assumes "isDisabled p"
  shows "\<not> has_inputs (render p s)
       \<and> step p s (Type_title t) = s
       \<and> step p s (Type_content c) = s
       \<and> (hasNoteId p \<and> \<not> truthy (initialData p) \<longrightarrow> requests (mount p) = [GET (note_url p)])
       \<and> (hasNoteId p \<and> truthy (initialData p) \<longrightarrow>
            requests (run p (mount p) [Elapse 1000]) =
              [PUT (note_url p)
                 \<lparr>body_content = val (initial_state p), body_title = title (initial_state p),
                    body_logoText = logoText p\<rparr>])"
  using assms mount_loading(3) [of p] mount_preloaded(5) [of p]
  by (simp add: render_def inputs_rendered_def)

theorem disabled_renders_no_inputs_witness:
  "isDisabled expired_props
   \<and> hasNoteId expired_props \<and> \<not> truthy (initialData expired_props)
   \<and> \<not> has_inputs (render expired_props
        (step expired_props (mount expired_props) (Load_done (Json loaded_response))))
   \<and> step expired_props
        (step expired_props (mount expired_props) (Load_done (Json loaded_response)))
        (Type_content ''x'') =
       step expired_props (mount expired_props) (Load_done (Json loaded_response))
   \<and> requests (mount expired_props) = [GET ''/api/note/n1'']"
proof -
  have h: "isDisabled expired_props" "hasNoteId expired_props"
    "\<not> truthy (initialData expired_props)" "note_url expired_props = ''/api/note/n1''"
    by (simp_all add: expired_props_def note_props_def props_simps)
  note t = disabled_renders_no_inputs [OF h(1),
      of "step expired_props (mount expired_props) (Load_done (Json loaded_response))"
        "''y''" "''x''"]
  from t h show ?thesis
    by (simp del: step.simps)
qed

section \<open>Completions after unmount\<close>

text \<open>
  Claim C3 at a concrete run. The note page is mounted, the component is unmounted while
  the GET is in flight, then the GET resolves with a full response. \<open>loadNote\<close> calls
  \<open>setValue\<close>, \<open>setTitle\<close> and \<open>setIsLoading\<close> without reading \<open>isMounted.current\<close>: after
  the unmount the three cells still hold their initial values, after the completion they
  hold the loaded ones. The save path does read the flag: a PUT that completes after the
  unmount leaves \<open>isSaving\<close> as it was.
\<close>

theorem load_after_unmount_sets_state:
  "\<not> isMounted (run note_props (mount note_props) [Unmount])
   \<and> isLoading (run note_props (mount note_props) [Unmount])
   \<and> val (run note_props (mount note_props) [Unmount]) = JStr []
   \<and> title (run note_props (mount note_props) [Unmount]) = JStr []
   \<and> \<not> isMounted
        (run note_props (mount note_props) [Unmount, Load_done (Json loaded_response)])
   \<and> \<not> isLoading
        (run note_props (mount note_props) [Unmount, Load_done (Json loaded_response)])
   \<and> val (run note_props (mount note_props) [Unmount, Load_done (Json loaded_response)]) =
       JStr ''C''
   \<and> title (run note_props (mount note_props) [Unmount, Load_done (Json loaded_response)]) =
       JStr ''T''
   \<and> isSaving (run preloaded_props (mount preloaded_props) [Elapse 1000, Unmount])
   \<and> isSaving (run preloaded_props (mount preloaded_props)
        [Elapse 1000, Unmount, Save_done Resolved])"
  by code_simp


section \<open>Coalescing of a burst of edits\<close>

lemma elapse_short:
  assumes "armed p s" and "d < 1000"
  shows "isMounted (elapse p d s)" and "\<not> isLoading (elapse p d s)"
    and "val (elapse p d s) = val s" and "title (elapse p d s) = title s"
    and "requests (elapse p d s) = requests s"
    and "now (elapse p d s) = now s + d"
    and "saveTimer (elapse p d s) = Some (now s + 1000, val s, title s, logoText p)"
  using assms
  by (simp_all add: armed_def elapse_def fireSave_def due_def)

lemma edit_step:
  assumes "hasNoteId p" and "\<not> isDisabled p" and "isMounted s" and "\<not> isLoading s"
    and "real_edits (val s) (title s) [e]"
  shows "armed p (step p s (edit_event e))"
    and "requests (step p s (edit_event e)) = requests s"
    and "val (step p s (edit_event e)) = edited_content (val s) [e]"
    and "title (step p s (edit_event e)) = edited_title (title s) [e]"
    and "now (step p s (edit_event e)) = now s"
  using assms
  by (cases e; simp add: armed_def inputs_rendered_def render_def commit_def
        editEffect_saveTimer setValue_def setTitle_def)+

lemma burst_keeps_armed:
  assumes "hasNoteId p" and "\<not> isDisabled p"
  shows "armed p s \<Longrightarrow> real_edits (val s) (title s) (map snd es) \<Longrightarrow>
         \<forall>x \<in> set es. fst x < 1000 \<Longrightarrow>
         armed p (run p s (burst_events es))
       \<and> requests (run p s (burst_events es)) = requests s
       \<and> val (run p s (burst_events es)) = edited_content (val s) (map snd es)
       \<and> title (run p s (burst_events es)) = edited_title (title s) (map snd es)"
proof (induction es arbitrary: s)
  case Nil
  then show ?case by simp
next
  case (Cons x es)
  obtain d e where x: "x = (d, e)" by (cases x)
  let ?s1 = "elapse p d s"
  let ?s2 = "step p ?s1 (edit_event e)"
  from Cons.prems x have d: "d < 1000" by simp
  note el = elapse_short [OF Cons.prems(1) d]
  from Cons.prems(2) x have re: "real_edits (val ?s1) (title ?s1) [e]"
    by (cases e) (simp_all add: el)
  note ed = edit_step [OF assms el(1) el(2) re]
  have v2: "val ?s2 = edited_content (val s) [e]" "title ?s2 = edited_title (title s) [e]"
    using ed(3,4) el(3,4) by simp_all
  from Cons.prems(2) x have rest: "real_edits (val ?s2) (title ?s2) (map snd es)"
    unfolding v2 by (cases e) simp_all
  from Cons.prems(3) have gaps: "\<forall>x \<in> set es. fst x < 1000" by simp
  have r2: "requests ?s2 = requests s"
    using ed(2) el(5) by simp
  have unfold: "run p s (burst_events (x # es)) = run p ?s2 (burst_events es)"
    by (simp add: x)
  from Cons.IH [OF ed(1) rest gaps] show ?case
    unfolding unfold v2 r2 x by (cases e) simp_all
qed

text \<open>
  Claim C1. The note has an id, its initial load is over (\<open>isLoading\<close> is false), the
  component is mounted and shows its inputs. A burst is a first edit followed by further
  edits of content or title, each less than 1000 ms after the one before (in particular
  any burst that fits into less than 1000 ms as a whole). While the burst lasts no request
  is issued. Once 1000 ms or more have passed after the last edit, exactly one request has
  been added: a PUT to the note's URL whose body holds the content and the title as they
  are after the last edit, and the logo text.
\<close>

theorem burst_one_put:
  assumes "hasNoteId p" and "\<not> isDisabled p" and "isMounted s" and "\<not> isLoading s"
    and "real_edits (val s) (title s) (e # map snd es)"
    and "\<forall>x \<in> set es. fst x < 1000"
    and "1000 \<le> D"
  shows "requests (run p s (edit_event e # burst_events es)) = requests s
       \<and> requests (run p s (edit_event e # burst_events es @ [Elapse D])) =
           requests s @
             [PUT (note_url p)
                \<lparr>body_content = edited_content (val s) (e # map snd es),
                   body_title = edited_title (title s) (e # map snd es),
                   body_logoText = logoText p\<rparr>]"
proof -
  let ?s1 = "step p s (edit_event e)"
  let ?s2 = "run p ?s1 (burst_events es)"
  from assms(5) have re: "real_edits (val s) (title s) [e]"
    by (cases e) simp_all
  note ed = edit_step [OF assms(1-4) re]
  from assms(5) have rest: "real_edits (val ?s1) (title ?s1) (map snd es)"
    unfolding ed(3,4) by (cases e) simp_all
  note b = burst_keeps_armed [OF assms(1,2) ed(1) rest assms(6)]
  have v: "val ?s2 = edited_content (val s) (e # map snd es)"
    "title ?s2 = edited_title (title s) (e # map snd es)"
    using b unfolding ed(3,4) by (cases e; simp)+
  have r: "requests ?s2 = requests s"
    using b ed(2) by simp
  from b have t: "saveTimer ?s2 = Some (now ?s2 + 1000, val ?s2, title ?s2, logoText p)"
    by (simp add: armed_def)
  have "requests (elapse p D ?s2) =
          requests ?s2 @ [PUT (note_url p)
             \<lparr>body_content = val ?s2, body_title = title ?s2, body_logoText = logoText p\<rparr>]"
    using t assms(1,7) by (simp add: elapse_def fireSave_due saveNote_requests)
  then have "requests (run p ?s2 [Elapse D]) =
          requests s @ [PUT (note_url p)
             \<lparr>body_content = edited_content (val s) (e # map snd es),
                body_title = edited_title (title s) (e # map snd es),
                body_logoText = logoText p\<rparr>]"
    unfolding v r by simp
  moreover have "run p s (edit_event e # burst_events es @ [Elapse D]) = run p ?s2 [Elapse D]"
    using run_append [of p ?s1 "burst_events es" "[Elapse D]"] by simp
  moreover have "run p s (edit_event e # burst_events es) = ?s2"
    by simp
  ultimately show ?thesis
    using r by simp
qed

theorem burst_one_put_witness:
  "hasNoteId preloaded_props \<and> \<not> isDisabled preloaded_props
   \<and> isMounted (mount preloaded_props) \<and> \<not> isLoading (mount preloaded_props)
   \<and> requests (run preloaded_props (mount preloaded_props)
        [Type_content ''milk,'', Elapse 300, Type_content ''milk, eggs'', Elapse 400,
         Type_title ''Plans'']) = []
   \<and> requests (run preloaded_props (mount preloaded_props)
        [Type_content ''milk,'', Elapse 300, Type_content ''milk, eggs'', Elapse 400,
         Type_title ''Plans'', Elapse 1000]) =
       [PUT ''/api/note/n1''
          \<lparr>body_content = JStr ''milk, eggs'', body_title = JStr ''Plans'',
             body_logoText = ''Logo''\<rparr>]"
proof -
  have h: "hasNoteId preloaded_props" "\<not> isDisabled preloaded_props"
    "truthy (initialData preloaded_props)"
    "note_url preloaded_props = ''/api/note/n1''" "logoText preloaded_props = ''Logo''"
    by (simp_all add: preloaded_props_def props_simps)
  note m = mount_preloaded [OF h(1,3)]
  have v: "val (mount preloaded_props) = JStr ''milk''"
    "title (mount preloaded_props) = JStr ''Plan''"
    "isMounted (mount preloaded_props)" "\<not> isLoading (mount preloaded_props)"
    by (simp_all add: m(1))
       (simp_all add: preloaded_props_def initial_state_def or_js_def hasNoteId_def)
  have re: "real_edits (val (mount preloaded_props)) (title (mount preloaded_props))
      (Edit_content ''milk,'' #
       map snd [(300, Edit_content ''milk, eggs''), (400, Edit_title ''Plans'')])"
    unfolding v by simp
  have gaps: "\<forall>x \<in> set [(300::nat, Edit_content ''milk, eggs''), (400, Edit_title ''Plans'')].
      fst x < 1000"
    by simp
  have D: "(1000::nat) \<le> 1000"
    by simp
  note t = burst_one_put [OF h(1,2) v(3,4) re gaps D]
  from t h v m(4) show ?thesis
    by (simp del: run.simps step.simps)
qed

end
